theory Spec2Isabelle
  imports Complex_Main
begin

section \<open>Quantities\<close>

text \<open>
  The notebook tags every number with a unit (\<^verbatim>\<open>u.deg\<close>, \<^verbatim>\<open>u.hour\<close>, \<^verbatim>\<open>u.m\<close>).
  Angles are kept in degrees, times and time offsets in hours, heights in metres.
  Finite floating-point values are read as the real numbers they denote.
\<close>

type_synonym deg = real
type_synonym hours = real

section \<open>Day, twilight and night shading (cell 24)\<close>

text \<open>
  The altitude figure shades its background with two calls, in this order:
  \<^verbatim>\<open>
  plt.fill_between(delta_midnight, 0 * u.deg, 90 * u.deg,
                   sunaltazs_July12_to_13.alt < -0 * u.deg, color="0.5", zorder=0)
  plt.fill_between(delta_midnight, 0 * u.deg, 90 * u.deg,
                   sunaltazs_July12_to_13.alt < -18 * u.deg, color="k", zorder=0)
  \<close>
  The fourth argument is the \<^verbatim>\<open>where\<close> mask, one boolean per time sample. Both
  calls use the same z-order, so the second paints over the first. The model keeps, per
  time sample, the colour painted last (\<open>None\<close>: left unshaded).
\<close>

datatype colour = Grey | Black

definition below_horizon_mask :: "deg list \<Rightarrow> bool list" where
  "below_horizon_mask sun_alt = map (\<lambda>a. a < - 0) sun_alt"

definition night_mask :: "deg list \<Rightarrow> bool list" where
  "night_mask sun_alt = map (\<lambda>a. a < - 18) sun_alt"

definition fill_between :: "bool list \<Rightarrow> colour \<Rightarrow> colour option list \<Rightarrow> colour option list" where
  "fill_between cond c canvas = map2 (\<lambda>w old. if w then Some c else old) cond canvas"

definition shading :: "deg list \<Rightarrow> colour option list" where
  "shading sun_alt =
     fill_between (night_mask sun_alt) Black
       (fill_between (below_horizon_mask sun_alt) Grey
          (replicate (length sun_alt) None))"

section \<open>Errors\<close>

text \<open>
  The notebook has no \<^verbatim>\<open>try\<close>, \<^verbatim>\<open>except\<close> or loop: an exception raised by a call
  ends the cell that made it and no later cell runs. Exceptions are values of the
  error taxonomy; a call that may raise returns \<open>error + 'a\<close>.
\<close>

datatype error = ResolutionError | InvalidLocationError | NetworkError | ComputationError

section \<open>Times (cells 8 and 12)\<close>

text \<open>
  Modelled from the spec: the class \<^verbatim>\<open>Time\<close> of the astronomy library is not among the
  repository's files. A TimePoint is an absolute instant; it is kept as a number of hours
  on a linear axis, counted through the Gregorian calendar. The record \<open>civil\<close> holds
  the fields of a date string such as \<^verbatim>\<open>"2012-7-12 23:00:00"\<close>.
\<close>

record civil =
  year :: int
  month :: int
  day :: int
  hour :: int
  minute :: int
  second :: int

definition julian_day_number :: "int \<Rightarrow> int \<Rightarrow> int \<Rightarrow> int" where
  "julian_day_number y m d =
     (let a = (14 - m) div 12; y' = y + 4800 - a; m' = m + 12 * a - 3
      in d + (153 * m' + 2) div 5 + 365 * y' + y' div 4 - y' div 100 + y' div 400 - 32045)"

definition Time :: "civil \<Rightarrow> hours" where
  "Time c =
     24 * real_of_int (julian_day_number (year c) (month c) (day c))
       + real_of_int (hour c) + real_of_int (minute c) / 60 + real_of_int (second c) / 3600"

section \<open>Evenly spaced samples (cells 12 and 18)\<close>

text \<open>
  Modelled from the spec: \<^verbatim>\<open>np.linspace\<close> is a routine of the numerics library, not
  among the repository's files. It returns \<open>num\<close> samples evenly spaced from \<open>start\<close>
  to \<open>stop\<close>; with more than one sample the last one is set to \<open>stop\<close> itself, with
  exactly one sample the result is \<open>start\<close> alone. Arithmetic is exact.
\<close>

definition linspace :: "real \<Rightarrow> real \<Rightarrow> nat \<Rightarrow> real list" where
  "linspace start stop num =
     (let delta = stop - start;
          y = (if 1 < num
               then map (\<lambda>i. start + real i * (delta / real (num - 1))) [0..<num]
               else map (\<lambda>i. start + real i * delta) [0..<num])
      in if 1 < num then y[num - 1 := stop] else y)"

section \<open>Observer, sky positions and horizon coordinates\<close>

record location =
  lat :: deg
  lon :: deg
  height :: real

record skypos =
  ra :: deg
  dec :: deg

text \<open>The frame \<^verbatim>\<open>AltAz(obstime=..., location=...)\<close>; a single time is a one-element series.\<close>

record AltAz =
  obstime :: "hours list"
  location :: location

text \<open>One sample of a coordinate in the horizon frame.\<close>

record altaz_coord =
  coord_obstime :: hours
  coord_location :: location
  alt :: deg
  az :: deg

text \<open>
  Modelled from the spec: \<^verbatim>\<open>EarthLocation\<close> is a class of the astronomy library. The
  spec's Observer Frame Builder takes latitude in [-90, 90] and longitude in [-180, 180]
  or [0, 360), and fails with \<open>InvalidLocationError\<close> on out-of-range values.
\<close>

definition EarthLocation :: "deg \<Rightarrow> deg \<Rightarrow> real \<Rightarrow> error + location" where
  "EarthLocation la lo h =
     (if - 90 \<le> la \<and> la \<le> 90 \<and> ((- 180 \<le> lo \<and> lo \<le> 180) \<or> (0 \<le> lo \<and> lo < 360))
      then Inr \<lparr>lat = la, lon = lo, height = h\<rparr>
      else Inl InvalidLocationError)"

section \<open>External collaborators\<close>

text \<open>
  The name resolver, the ephemeris provider and the numeric horizon transform are
  library and network services. They are parameters of the model:
  \<^item> \<open>from_name\<close>: \<^verbatim>\<open>SkyCoord.from_name\<close>, a request to a remote name service;
  \<^item> \<open>get_sun\<close>: the positions of the Sun at a series of times, computed locally;
  \<^item> \<open>get_body\<close>: the positions of a body at a series of times, after the download
    of an ephemeris file;
  \<^item> \<open>horizon\<close>: altitude and azimuth of one sky position for one observer at one time.

  A network service may answer a repeated request differently. The first argument of
  \<open>from_name\<close> and of \<open>get_body\<close> is the number of requests of that kind the run has
  already made: \<open>from_name ev 0\<close> is the answer to the first lookup, \<open>from_name ev 1\<close>
  the answer a second lookup would get.
\<close>

record env =
  from_name :: "nat \<Rightarrow> string \<Rightarrow> error + skypos"
  get_sun :: "hours list \<Rightarrow> error + skypos list"
  get_body :: "nat \<Rightarrow> string \<Rightarrow> hours list \<Rightarrow> error + skypos list"
  horizon :: "location \<Rightarrow> hours \<Rightarrow> skypos \<Rightarrow> error + deg \<times> deg"

section \<open>The horizon transform over a series\<close>

text \<open>
  Modelled from the spec: \<^verbatim>\<open>transform_to\<close> is a method of the astronomy library. The
  spec's Horizon Transform Engine takes a sky position or a series of ephemeris
  positions, an observer location and a single time or a series of times, and gives one
  horizon coordinate per time sample. It works element by element: a series of positions
  is paired with the frame's times, a single position or a single time is repeated, and
  any other pair of lengths is an error. Each resulting coordinate is tagged with the
  time and the location of the frame. The numbers themselves come from \<open>horizon\<close>.
\<close>

definition broadcast :: "'a list \<Rightarrow> 'b list \<Rightarrow> error + ('a \<times> 'b) list" where
  "broadcast xs ys =
     (if length xs = length ys then Inr (zip xs ys)
      else if length xs = 1 then Inr (map (\<lambda>y. (hd xs, y)) ys)
      else if length ys = 1 then Inr (map (\<lambda>x. (x, hd ys)) xs)
      else Inl ComputationError)"

fun collect :: "(error + 'a) list \<Rightarrow> error + 'a list" where
  "collect [] = Inr []"
| "collect (r # rs) =
     (case r of
        Inl e \<Rightarrow> Inl e
      | Inr x \<Rightarrow> (case collect rs of Inl e \<Rightarrow> Inl e | Inr xs \<Rightarrow> Inr (x # xs)))"

definition transform_one :: "env \<Rightarrow> location \<Rightarrow> skypos \<times> hours \<Rightarrow> error + altaz_coord" where
  "transform_one ev loc pt =
     (case horizon ev loc (snd pt) (fst pt) of
        Inl e \<Rightarrow> Inl e
      | Inr h \<Rightarrow> Inr \<lparr>coord_obstime = snd pt, coord_location = loc, alt = fst h, az = snd h\<rparr>)"

definition transform_to :: "env \<Rightarrow> skypos list \<Rightarrow> AltAz \<Rightarrow> error + altaz_coord list" where
  "transform_to ev c frame =
     (case broadcast c (obstime frame) of
        Inl e \<Rightarrow> Inl e
      | Inr pairs \<Rightarrow> collect (map (transform_one ev (location frame)) pairs))"

section \<open>Airmass (cell 14)\<close>

text \<open>
  Modelled from the spec: the attribute \<^verbatim>\<open>secz\<close> belongs to the astronomy library. The
  airmass is the secant of the zenith angle, 1 / cos (zenith angle), with the zenith
  angle 90 degrees minus the altitude; the spec's data model has it undefined or infinite
  at an altitude of 0 degrees or less, written \<open>Infinite\<close>, as is a zero denominator.
  Cell 14 reads the attribute for every sample.
\<close>

datatype airmass = Finite real | Infinite

definition radians :: "deg \<Rightarrow> real" where
  "radians d = d * pi / 180"

definition zen :: "deg \<Rightarrow> deg" where
  "zen a = 90 - a"

definition secz :: "deg \<Rightarrow> airmass" where
  "secz a =
     (if a \<le> 0 \<or> cos (radians (zen a)) = 0 then Infinite
      else Finite (1 / cos (radians (zen a))))"

section \<open>Inputs of the notebook\<close>

text \<open>
  The values written as literals in the cells: the object name, the observer's geodetic
  coordinates, the two local date strings, the UTC offset, and the two sample grids.
\<close>

record inputs =
  target_name :: string
  site_lat :: deg
  site_lon :: deg
  site_height :: real
  utcoffset :: hours
  obs_local :: civil
  midnight_local :: civil
  night_start :: hours
  night_stop :: hours
  night_num :: nat
  full_start :: hours
  full_stop :: hours
  full_num :: nat

definition notebook_inputs :: inputs where
  "notebook_inputs =
     \<lparr>target_name = ''M33'', site_lat = 41.3, site_lon = - 74, site_height = 390,
      utcoffset = - 4,
      obs_local = \<lparr>year = 2012, month = 7, day = 12, hour = 23, minute = 0, second = 0\<rparr>,
      midnight_local = \<lparr>year = 2012, month = 7, day = 13, hour = 0, minute = 0, second = 0\<rparr>,
      night_start = - 2, night_stop = 10, night_num = 100,
      full_start = - 12, full_stop = 12, full_num = 1000\<rparr>"

text \<open>\<^verbatim>\<open>time = Time("2012-7-12 23:00:00") - utcoffset\<close> (cell 8)\<close>

definition time :: "inputs \<Rightarrow> hours" where
  "time inp = Time (obs_local inp) - utcoffset inp"

text \<open>\<^verbatim>\<open>midnight = Time("2012-7-13 00:00:00") - utcoffset\<close> (cell 12)\<close>

definition midnight :: "inputs \<Rightarrow> hours" where
  "midnight inp = Time (midnight_local inp) - utcoffset inp"

text \<open>
  The Time Grid Generator: \<^verbatim>\<open>midnight + np.linspace(start, stop, num) * u.hour\<close>
  (cells 12 and 18).
\<close>

definition time_grid :: "hours \<Rightarrow> hours \<Rightarrow> hours \<Rightarrow> nat \<Rightarrow> hours list" where
  "time_grid base start stop num = map (\<lambda>d. base + d) (linspace start stop num)"

definition delta_midnight_night :: "inputs \<Rightarrow> hours list" where
  "delta_midnight_night inp = linspace (night_start inp) (night_stop inp) (night_num inp)"

definition delta_midnight_full :: "inputs \<Rightarrow> hours list" where
  "delta_midnight_full inp = linspace (full_start inp) (full_stop inp) (full_num inp)"

definition times_July13night :: "inputs \<Rightarrow> hours list" where
  "times_July13night inp =
     time_grid (midnight inp) (night_start inp) (night_stop inp) (night_num inp)"

definition times_July12_to_13 :: "inputs \<Rightarrow> hours list" where
  "times_July12_to_13 inp =
     time_grid (midnight inp) (full_start inp) (full_stop inp) (full_num inp)"

section \<open>Running the cells\<close>

text \<open>
  What a run leaves behind, in order: the network requests it made, the line it printed
  and the figures it showed. A cell is a function on this log that either raises or
  returns a value.
\<close>

datatype event =
    NameLookup string
  | EphemerisDownload string
  | Printed "deg list"
  | AirmassPlot "hours list" "airmass list"
  | AltitudePlot "hours list" "deg list" "deg list" "deg list" "deg list" "colour option list"

type_synonym 'a cell = "event list \<Rightarrow> event list \<times> (error + 'a)"

definition ret :: "'a \<Rightarrow> 'a cell" where
  "ret x out = (out, Inr x)"

definition call :: "error + 'a \<Rightarrow> 'a cell" where
  "call r out = (out, r)"

definition emit :: "event \<Rightarrow> unit cell" where
  "emit e out = (out @ [e], Inr ())"

definition seq :: "'a cell \<Rightarrow> ('a \<Rightarrow> 'b cell) \<Rightarrow> 'b cell" where
  "seq m f out =
     (case m out of
        (out', Inl e) \<Rightarrow> (out', Inl e)
      | (out', Inr x) \<Rightarrow> f x out')"

fun is_lookup :: "event \<Rightarrow> bool" where
  "is_lookup (NameLookup n) = True"
| "is_lookup e = False"

fun is_download :: "event \<Rightarrow> bool" where
  "is_download (EphemerisDownload b) = True"
| "is_download e = False"

text \<open>
  A network request is written to the log and answered by the service according to the
  number of earlier requests of its kind in the log.
\<close>

definition name_request :: "env \<Rightarrow> string \<Rightarrow> skypos cell" where
  "name_request ev n out =
     (out @ [NameLookup n], from_name ev (length (filter is_lookup out)) n)"

definition ephemeris_request :: "env \<Rightarrow> string \<Rightarrow> hours list \<Rightarrow> skypos list cell" where
  "ephemeris_request ev b ts out =
     (out @ [EphemerisDownload b], get_body ev (length (filter is_download out)) b ts)"

fun is_plot :: "event \<Rightarrow> bool" where
  "is_plot (AirmassPlot d a) = True"
| "is_plot (AltitudePlot d s m t z c) = True"
| "is_plot e = False"

fun is_output :: "event \<Rightarrow> bool" where
  "is_output (NameLookup n) = False"
| "is_output (EphemerisDownload n) = False"
| "is_output e = True"

text \<open>
  Cells 6 to 10: resolve the object, build the observer location, transform at the
  single observation time, print the altitude.
\<close>

definition cells_6_to_10 :: "env \<Rightarrow> inputs \<Rightarrow> (skypos \<times> location) cell" where
  "cells_6_to_10 ev inp =
     seq (name_request ev (target_name inp)) (\<lambda>m33.
     seq (call (EarthLocation (site_lat inp) (site_lon inp) (site_height inp))) (\<lambda>bear_mountain.
     seq (call (transform_to ev [m33] \<lparr>obstime = [time inp], location = bear_mountain\<rparr>)) (\<lambda>m33altaz.
     seq (emit (Printed (map alt m33altaz))) (\<lambda>_.
     ret (m33, bear_mountain)))))"

text \<open>Cells 12 to 16: the night grid, the airmass of the target, the airmass figure.\<close>

definition frame_July13night :: "inputs \<Rightarrow> location \<Rightarrow> AltAz" where
  "frame_July13night inp bear_mountain =
     \<lparr>obstime = times_July13night inp, location = bear_mountain\<rparr>"

definition cells_12_to_16 :: "env \<Rightarrow> inputs \<Rightarrow> skypos \<Rightarrow> location \<Rightarrow> unit cell" where
  "cells_12_to_16 ev inp m33 bear_mountain =
     seq (call (transform_to ev [m33] (frame_July13night inp bear_mountain)))
       (\<lambda>m33altazs_July13night.
     emit (AirmassPlot (delta_midnight_night inp) (map (secz \<circ> alt) m33altazs_July13night)))"

text \<open>
  Cells 18 to 22: Sun, Moon and target over the noon-to-noon grid, all three transformed
  to the one frame \<^verbatim>\<open>frame_July12_to_13\<close>.
\<close>

definition frame_July12_to_13 :: "inputs \<Rightarrow> location \<Rightarrow> AltAz" where
  "frame_July12_to_13 inp bear_mountain =
     \<lparr>obstime = times_July12_to_13 inp, location = bear_mountain\<rparr>"

definition cells_18_to_22 ::
  "env \<Rightarrow> inputs \<Rightarrow> skypos \<Rightarrow> location
     \<Rightarrow> (altaz_coord list \<times> altaz_coord list \<times> altaz_coord list) cell" where
  "cells_18_to_22 ev inp m33 bear_mountain =
     seq (call (get_sun ev (times_July12_to_13 inp))) (\<lambda>sun.
     seq (call (transform_to ev sun (frame_July12_to_13 inp bear_mountain))) (\<lambda>sunaltazs.
     seq (ephemeris_request ev ''moon'' (times_July12_to_13 inp)) (\<lambda>moon.
     seq (call (transform_to ev moon (frame_July12_to_13 inp bear_mountain))) (\<lambda>moonaltazs.
     seq (call (transform_to ev [m33] (frame_July12_to_13 inp bear_mountain))) (\<lambda>m33altazs.
     ret (sunaltazs, moonaltazs, m33altazs))))))"

text \<open>Cell 24: the altitude figure with its shading.\<close>

definition cell_24 ::
  "inputs \<Rightarrow> altaz_coord list \<times> altaz_coord list \<times> altaz_coord list \<Rightarrow> unit cell" where
  "cell_24 inp series =
     (case series of (sunaltazs, moonaltazs, m33altazs) \<Rightarrow>
        emit (AltitudePlot (delta_midnight_full inp)
                (map alt sunaltazs) (map alt moonaltazs)
                (map alt m33altazs) (map az m33altazs)
                (shading (map alt sunaltazs))))"

text \<open>The whole notebook, run from an empty log: the log and the uncaught error, if any.\<close>

definition notebook :: "env \<Rightarrow> inputs \<Rightarrow> unit cell" where
  "notebook ev inp =
     seq (cells_6_to_10 ev inp) (\<lambda>(m33, bear_mountain).
     seq (cells_12_to_16 ev inp m33 bear_mountain) (\<lambda>_.
     seq (cells_18_to_22 ev inp m33 bear_mountain) (cell_24 inp)))"

definition run :: "env \<Rightarrow> inputs \<Rightarrow> event list \<times> error option" where
  "run ev inp =
     (case notebook ev inp [] of
        (out, Inl e) \<Rightarrow> (out, Some e)
      | (out, Inr _) \<Rightarrow> (out, None))"

section \<open>Example collaborators\<close>

text \<open>
  Settings of the external collaborators, used to run the notebook on concrete inputs:
  \<^item> \<open>clear_sky\<close>: every call succeeds;
  \<^item> \<open>first_lookup_fails\<close>: the name service fails on the first request and would
    answer any later one;
  \<^item> \<open>first_download_fails\<close>: the ephemeris download fails on the first request and
    would succeed on any later one;
  \<^item> \<open>no_data_before_July13\<close>: the horizon transform has no data for instants before
    2012-07-13 00:00 on the standard time axis;
  \<^item> \<open>sundial\<close>: the horizon transform reports, in place of the altitude, the instant
    it was asked about.
\<close>

definition clear_sky :: env where
  "clear_sky =
     \<lparr>from_name = (\<lambda>k n. Inr \<lparr>ra = 23, dec = 31\<rparr>),
      get_sun = (\<lambda>ts. Inr (map (\<lambda>t. \<lparr>ra = 112, dec = 22\<rparr>) ts)),
      get_body = (\<lambda>k b ts. Inr (map (\<lambda>t. \<lparr>ra = 60, dec = 20\<rparr>) ts)),
      horizon = (\<lambda>loc t p. Inr (dec p, ra p))\<rparr>"

definition first_lookup_fails :: env where
  "first_lookup_fails =
     clear_sky\<lparr>from_name := (\<lambda>k n.
        if k = 0 then Inl ResolutionError else Inr \<lparr>ra = 23, dec = 31\<rparr>)\<rparr>"

definition first_download_fails :: env where
  "first_download_fails =
     clear_sky\<lparr>get_body := (\<lambda>k b ts.
        if k = 0 then Inl NetworkError else Inr (map (\<lambda>t. \<lparr>ra = 60, dec = 20\<rparr>) ts))\<rparr>"


definition no_data_before_July13 :: env where
  "no_data_before_July13 =
     clear_sky\<lparr>horizon := (\<lambda>loc t p.
        if t < Time \<lparr>year = 2012, month = 7, day = 13, hour = 0, minute = 0, second = 0\<rparr>
        then Inl ComputationError else Inr (dec p, ra p))\<rparr>"

section \<open>Properties of the shading\<close>

lemma length_fill_between:
  "length (fill_between cond c canvas) = min (length cond) (length canvas)"
  by (simp add: fill_between_def)

lemma nth_fill_between:
  assumes "i < length cond" and "i < length canvas"
  shows "fill_between cond c canvas ! i = (if cond ! i then Some c else canvas ! i)"
  using assms by (simp add: fill_between_def)

lemma length_shading: "length (shading sun_alt) = length sun_alt"
  by (simp add: shading_def length_fill_between night_mask_def below_horizon_mask_def)

lemma nth_shading:
  assumes "i < length sun_alt"
  shows "shading sun_alt ! i =
           (if sun_alt ! i < - 18 then Some Black
            else if sun_alt ! i < 0 then Some Grey else None)"
  using assms
  by (simp add: shading_def nth_fill_between length_fill_between
      night_mask_def below_horizon_mask_def)

text \<open>
  Claim C1, as stated: a sample whose sun altitude is exactly -18 degrees is classified
  as night. The night mask is the strict comparison \<open>alt < -18\<close>, so that sample keeps
  the grey of the first call: it is shaded as twilight, not as night.
\<close>

theorem shading_at_minus_18_is_twilight:
  "night_mask [- 18] = [False] \<and> shading [- 18] = [Some Grey]"
  by (simp add: shading_def fill_between_def night_mask_def below_horizon_mask_def)

text \<open>
  Claim C1, amended: every sample of the Sun's altitude series gets exactly one of three
  shadings, decided by thresholds: unshaded (daylight) exactly when the altitude is at
  least 0 degrees, grey (twilight) exactly when it is at least -18 and below 0 degrees,
  black (night) exactly when it is strictly below -18 degrees. The series of shadings
  has one entry per sample.
\<close>

theorem shading_thresholds:
  assumes "i < length sun_alt"
  shows "length (shading sun_alt) = length sun_alt
       \<and> (shading sun_alt ! i = None \<longleftrightarrow> 0 \<le> sun_alt ! i)
       \<and> (shading sun_alt ! i = Some Grey \<longleftrightarrow> - 18 \<le> sun_alt ! i \<and> sun_alt ! i < 0)
       \<and> (shading sun_alt ! i = Some Black \<longleftrightarrow> sun_alt ! i < - 18)"
  using assms by (auto simp: nth_shading length_shading)

theorem shading_thresholds_witness:
  "(4::nat) < length [25, 0, - 7, - 18, - 40 :: real]
 \<and> shading [25, 0, - 7, - 18, - 40] ! 1 = None
 \<and> shading [25, 0, - 7, - 18, - 40] ! 3 = Some Grey
 \<and> shading [25, 0, - 7, - 18, - 40] ! 4 = Some Black"
  using shading_thresholds [of 1 "[25, 0, - 7, - 18, - 40]"]
    shading_thresholds [of 3 "[25, 0, - 7, - 18, - 40]"]
    shading_thresholds [of 4 "[25, 0, - 7, - 18, - 40]"]
  by simp

text \<open>
  Claim C10: at every time sample the night mask implies the below-horizon mask, so the
  samples shaded as night are a subset of the samples shaded as sun-below-horizon, for
  any Sun altitude series.
\<close>

theorem night_mask_implies_below_horizon_mask:
  assumes "i < length sun_alt" and "night_mask sun_alt ! i"
  shows "below_horizon_mask sun_alt ! i"
  using assms by (simp add: night_mask_def below_horizon_mask_def)

theorem night_mask_implies_below_horizon_mask_witness:
  "night_mask [25, - 7, - 40] ! 2 \<and> below_horizon_mask [25, - 7, - 40] ! 2"
proof -
  have n: "night_mask [25, - 7, - 40] ! 2" by (simp add: night_mask_def)
  have l: "(2::nat) < length [25, - 7, - 40 :: real]" by simp
  from night_mask_implies_below_horizon_mask [OF l n] n show ?thesis by simp
qed

section \<open>Properties of the time grid\<close>

lemma length_linspace: "length (linspace a b n) = n"
  by (simp add: linspace_def Let_def)

lemma nth_linspace:
  assumes "i < n" and "1 < n"
  shows "linspace a b n ! i = a + real i * ((b - a) / real (n - 1))"
proof (cases "i = n - 1")
  case True
  have "real (n - 1) * ((b - a) / real (n - 1)) = b - a"
    using assms by simp
  with True assms show ?thesis
    by (simp add: linspace_def Let_def)
next
  case False
  with assms show ?thesis
    by (simp add: linspace_def Let_def)
qed

lemma linspace_one: "linspace a b (Suc 0) = [a]"
  by (simp add: linspace_def Let_def)

lemma length_time_grid: "length (time_grid base s e n) = n"
  by (simp add: time_grid_def length_linspace)

lemma nth_time_grid:
  assumes "i < n" and "1 < n"
  shows "time_grid base s e n ! i = base + (s + real i * ((e - s) / real (n - 1)))"
  using assms by (simp add: time_grid_def length_linspace nth_linspace)

lemma time_grid_one: "time_grid base s e (Suc 0) = [base + s]"
  by (simp add: time_grid_def linspace_one)

text \<open>
  Claim C2: for every base time, start offset, end offset and sample count \<open>n\<close> of at
  least 1, the time grid has exactly \<open>n\<close> points, the first is base + start, with more
  than one sample the last is base + end, and consecutive points are the same distance
  apart; with 100 samples from -2 h to 10 h the first is base - 2 h and the last is
  base + 10 h.
\<close>

theorem time_grid_evenly_spaced:
  assumes "1 \<le> n"
  shows "length (time_grid base s e n) = n
       \<and> time_grid base s e n ! 0 = base + s
       \<and> (1 < n \<longrightarrow> time_grid base s e n ! (n - 1) = base + e)
       \<and> (\<forall>i. Suc i < n \<longrightarrow>
             time_grid base s e n ! Suc i - time_grid base s e n ! i = (e - s) / real (n - 1))
       \<and> time_grid base (- 2) 10 100 ! 0 = base - 2
       \<and> time_grid base (- 2) 10 100 ! 99 = base + 10"
proof (intro conjI allI impI)
  show "length (time_grid base s e n) = n" by (rule length_time_grid)
next
  show "time_grid base s e n ! 0 = base + s"
  proof (cases "n = 1")
    case True
    then show ?thesis by (simp add: time_grid_one)
  next
    case False
    with assms have "1 < n" by simp
    then show ?thesis by (simp add: nth_time_grid)
  qed
next
  assume n: "1 < n"
  then have "real (n - 1) * ((e - s) / real (n - 1)) = e - s" by simp
  with n show "time_grid base s e n ! (n - 1) = base + e"
    by (simp add: nth_time_grid)
next
  fix i assume i: "Suc i < n"
  then have "1 < n" and "i < n" by simp_all
  define c where "c = (e - s) / real (n - 1)"
  have "time_grid base s e n ! Suc i = base + (s + real (Suc i) * c)"
    and "time_grid base s e n ! i = base + (s + real i * c)"
    unfolding c_def using i by (simp_all only: nth_time_grid \<open>1 < n\<close> \<open>i < n\<close>)
  then have "time_grid base s e n ! Suc i - time_grid base s e n ! i = c"
    by (simp add: ring_distribs)
  then show "time_grid base s e n ! Suc i - time_grid base s e n ! i = (e - s) / real (n - 1)"
    by (simp only: c_def)
next
  show "time_grid base (- 2) 10 100 ! 0 = base - 2"
    by (simp add: nth_time_grid)
next
  show "time_grid base (- 2) 10 100 ! 99 = base + 10"
    by (simp add: nth_time_grid)
qed

theorem time_grid_evenly_spaced_witness:
  "(1::nat) \<le> 100
 \<and> length (times_July13night notebook_inputs) = 100
 \<and> times_July13night notebook_inputs ! 0 = midnight notebook_inputs - 2
 \<and> times_July13night notebook_inputs ! 99 = midnight notebook_inputs + 10
 \<and> times_July13night notebook_inputs ! 1 - times_July13night notebook_inputs ! 0 = 4 / 33"
proof -
  have n: "(1::nat) \<le> 100" by simp
  have g: "times_July13night notebook_inputs = time_grid (midnight notebook_inputs) (- 2) 10 100"
    by (simp add: times_July13night_def notebook_inputs_def)
  note t = time_grid_evenly_spaced [OF n, of "midnight notebook_inputs" "- 2" 10]
  from t have "Suc 0 < 100 \<longrightarrow> time_grid (midnight notebook_inputs) (- 2) 10 100 ! Suc 0
                 - time_grid (midnight notebook_inputs) (- 2) 10 100 ! 0 = (10 - (- 2)) / real (100 - 1)"
    by blast
  with t show ?thesis unfolding g by simp
qed





lemma length_times_July12_to_13: "length (times_July12_to_13 inp) = full_num inp"
  by (simp add: times_July12_to_13_def length_time_grid)

section \<open>Properties of the airmass\<close>

lemma radians_zen: "radians (zen a) = pi / 2 - radians a"
  by (simp add: radians_def zen_def diff_divide_distrib left_diff_distrib)

lemma cos_zen: "cos (radians (zen a)) = sin (radians a)"
  by (simp add: radians_zen cos_diff)

lemma radians_pos: "0 < a \<Longrightarrow> 0 < radians a"
  by (simp add: radians_def)

lemma radians_le_half_pi: "a \<le> 90 \<Longrightarrow> radians a \<le> pi / 2"
proof -
  assume "a \<le> 90"
  then have "a * pi \<le> 90 * pi" by (intro mult_right_mono) simp_all
  then show ?thesis by (simp add: radians_def)
qed

lemma radians_strict_mono: "a < b \<Longrightarrow> radians a < radians b"
  by (simp add: radians_def divide_strict_right_mono)

lemma sin_radians_pos:
  assumes "0 < a" and "a \<le> 90"
  shows "0 < sin (radians a)"
proof -
  have "0 < radians a" using assms(1) by (rule radians_pos)
  moreover have "radians a \<le> pi / 2" using assms(2) by (rule radians_le_half_pi)
  moreover have "pi / 2 < pi" by simp
  ultimately show ?thesis by (intro sin_gt_zero) linarith+
qed

lemma secz_above_horizon:
  assumes "0 < a" and "a \<le> 90"
  shows "secz a = Finite (1 / sin (radians a))"
  using assms sin_radians_pos [OF assms] by (simp add: secz_def cos_zen)

text \<open>
  Claim C4: the airmass is strictly decreasing in the altitude between 0 and 90 degrees:
  for altitudes \<open>0 < a1 < a2 \<le> 90\<close> both airmasses are finite and the one at \<open>a2\<close> is
  strictly smaller than the one at \<open>a1\<close>.
\<close>

theorem secz_strictly_decreasing:
  assumes "0 < a1" and "a1 < a2" and "a2 \<le> 90"
  shows "\<exists>x1 x2. secz a1 = Finite x1 \<and> secz a2 = Finite x2 \<and> x2 < x1"
proof -
  have p1: "0 < sin (radians a1)" and p2: "0 < sin (radians a2)"
    using assms by (simp_all add: sin_radians_pos)
  have "- (pi / 2) \<le> radians a1" and "radians a1 \<le> pi / 2"
    and "- (pi / 2) \<le> radians a2" and "radians a2 \<le> pi / 2"
    using assms radians_pos [of a1] radians_pos [of a2]
      radians_le_half_pi [of a1] radians_le_half_pi [of a2] by simp_all
  moreover have "radians a1 < radians a2" using assms by (simp add: radians_strict_mono)
  ultimately have "sin (radians a1) < sin (radians a2)"
    by (simp add: sin_mono_less_eq)
  with p1 p2 have "1 / sin (radians a2) < 1 / sin (radians a1)"
    by (simp add: frac_less2)
  moreover have "secz a1 = Finite (1 / sin (radians a1))"
    and "secz a2 = Finite (1 / sin (radians a2))"
    using assms by (simp_all add: secz_above_horizon)
  ultimately show ?thesis by simp
qed

theorem secz_strictly_decreasing_witness:
  "(0::real) < 30 \<and> (30::real) < 90 \<and> (90::real) \<le> 90
 \<and> (\<exists>x1 x2. secz 30 = Finite x1 \<and> secz 90 = Finite x2 \<and> x2 < x1)"
  using secz_strictly_decreasing [of 30 90] by simp

section \<open>Properties of the horizon transform\<close>

lemma collect_Inr: "collect rs = Inr ys \<Longrightarrow> rs = map Inr ys"
proof (induction rs arbitrary: ys)
  case Nil
  then show ?case by simp
next
  case (Cons r rs)
  then show ?case by (auto split: sum.splits)
qed

lemma collect_map_Inr:
  assumes "\<And>x. x \<in> set xs \<Longrightarrow> f x = Inr (g x)"
  shows "collect (map f xs) = Inr (map g xs)"
  using assms by (induction xs) simp_all

lemma collect_map_hd_Inl:
  assumes "xs \<noteq> []" and "f (hd xs) = Inl e"
  shows "collect (map f xs) = Inl e"
  using assms by (cases xs) simp_all

lemma transform_one_Inr:
  assumes "transform_one ev loc pt = Inr x"
  shows "coord_obstime x = snd pt \<and> coord_location x = loc"
  using assms by (auto simp: transform_one_def split: sum.splits)

lemma broadcast_snd:
  assumes "broadcast xs ys = Inr pairs" and "length ys \<noteq> 1"
  shows "map snd pairs = ys"
  using assms by (auto simp: broadcast_def comp_def split: if_splits)

lemma transform_to_Inr:
  assumes "transform_to ev c frame = Inr r" and "length (obstime frame) \<noteq> 1"
  shows "map coord_obstime r = obstime frame"
    and "\<forall>x \<in> set r. coord_location x = location frame"
proof -
  from assms(1) obtain pairs where b: "broadcast c (obstime frame) = Inr pairs"
    and c: "collect (map (transform_one ev (location frame)) pairs) = Inr r"
    by (auto simp: transform_to_def split: sum.splits)
  from c have m: "map (transform_one ev (location frame)) pairs = map Inr r"
    by (rule collect_Inr)
  then have len: "length pairs = length r" by (metis length_map)
  have each: "transform_one ev (location frame) (pairs ! i) = Inr (r ! i)" if "i < length r" for i
    using m that len by (metis nth_map)
  have "map coord_obstime r = map snd pairs"
  proof (rule nth_equalityI)
    show "length (map coord_obstime r) = length (map snd pairs)" using len by simp
  next
    fix i assume "i < length (map coord_obstime r)"
    then have i: "i < length r" by simp
    from each [OF i] have "coord_obstime (r ! i) = snd (pairs ! i)"
      by (simp add: transform_one_Inr)
    with i len show "map coord_obstime r ! i = map snd pairs ! i" by simp
  qed
  with b assms(2) show "map coord_obstime r = obstime frame"
    by (simp add: broadcast_snd)
  show "\<forall>x \<in> set r. coord_location x = location frame"
  proof
    fix x assume "x \<in> set r"
    then obtain i where i: "i < length r" and x: "x = r ! i" by (auto simp: in_set_conv_nth)
    from each [OF i] x show "coord_location x = location frame"
      by (simp add: transform_one_Inr)
  qed
qed

lemma transform_to_all_Inr:
  assumes b: "broadcast c ts = Inr pairs"
    and h: "\<And>pt. pt \<in> set pairs \<Longrightarrow> horizon ev loc (snd pt) (fst pt) = Inr (g pt)"
  shows "transform_to ev c \<lparr>obstime = ts, location = loc\<rparr>
           = Inr (map (\<lambda>pt. \<lparr>coord_obstime = snd pt, coord_location = loc,
                               alt = fst (g pt), az = snd (g pt)\<rparr>) pairs)"
proof -
  have "collect (map (transform_one ev loc) pairs)
          = Inr (map (\<lambda>pt. \<lparr>coord_obstime = snd pt, coord_location = loc,
                               alt = fst (g pt), az = snd (g pt)\<rparr>) pairs)"
    by (rule collect_map_Inr) (simp add: transform_one_def h)
  with b show ?thesis by (simp add: transform_to_def)
qed

lemma transform_to_first_Inl:
  assumes b: "broadcast c ts = Inr pairs" and ne: "pairs \<noteq> []"
    and h: "horizon ev loc (snd (hd pairs)) (fst (hd pairs)) = Inl e"
  shows "transform_to ev c \<lparr>obstime = ts, location = loc\<rparr> = Inl e"
proof -
  have "collect (map (transform_one ev loc) pairs) = Inl e"
    using ne by (rule collect_map_hd_Inl) (simp add: transform_one_def h)
  with b show ?thesis by (simp add: transform_to_def)
qed

lemma broadcast_single: "broadcast [p] ts = Inr (map (\<lambda>t. (p, t)) ts)"
proof (cases "length ts = 1")
  case True
  then obtain t where "ts = [t]" by (cases ts) simp_all
  then show ?thesis by (simp add: broadcast_def)
next
  case False
  then show ?thesis by (simp add: broadcast_def)
qed





lemma broadcast_single_single: "broadcast [p] [t] = Inr [(p, t)]"
  by (simp add: broadcast_def)

lemma broadcast_same: "broadcast (map f ts) ts = Inr (zip (map f ts) ts)"
  by (simp add: broadcast_def)

lemma clear_sky_fields:
  "from_name clear_sky k n = Inr \<lparr>ra = 23, dec = 31\<rparr>"
  "get_sun clear_sky ts = Inr (map (\<lambda>t. \<lparr>ra = 112, dec = 22\<rparr>) ts)"
  "get_body clear_sky k b ts = Inr (map (\<lambda>t. \<lparr>ra = 60, dec = 20\<rparr>) ts)"
  "horizon clear_sky loc t p = Inr (dec p, ra p)"
  by (simp_all add: clear_sky_def)

lemma clear_sky_transform_to:
  assumes "broadcast c ts = Inr pairs"
  shows "\<exists>r. transform_to clear_sky c \<lparr>obstime = ts, location = loc\<rparr> = Inr r"
  using transform_to_all_Inr [OF assms, of clear_sky loc "\<lambda>pt. (dec (fst pt), ra (fst pt))"]
  by (simp add: clear_sky_fields)

lemma clear_sky_cells_18_to_22:
  "\<exists>s m t. cells_18_to_22 clear_sky inp p loc out
           = (out @ [EphemerisDownload ''moon''], Inr (s, m, t))"
proof -
  let ?ts = "times_July12_to_13 inp"
  obtain t where
    t: "transform_to clear_sky [p] \<lparr>obstime = ?ts, location = loc\<rparr> = Inr t"
    using clear_sky_transform_to [OF broadcast_single] by blast
  obtain s where
    s: "transform_to clear_sky (map (\<lambda>t. \<lparr>ra = 112, dec = 22\<rparr>) ?ts)
          \<lparr>obstime = ?ts, location = loc\<rparr> = Inr s"
    using clear_sky_transform_to [OF broadcast_same] by blast
  obtain m where
    m: "transform_to clear_sky (map (\<lambda>t. \<lparr>ra = 60, dec = 20\<rparr>) ?ts)
          \<lparr>obstime = ?ts, location = loc\<rparr> = Inr m"
    using clear_sky_transform_to [OF broadcast_same] by blast
  from s m t show ?thesis
    by (simp add: cells_18_to_22_def frame_July12_to_13_def seq_def call_def ret_def
        ephemeris_request_def clear_sky_fields)
qed

text \<open>
  Claim C9: in the noon-to-noon computation the Sun, the Moon and the target are all
  transformed to the one frame of cell 18, with the same observer location and the same
  1000 time samples in the same order. Whenever cells 18 to 22 complete, the three series
  have 1000 samples each, their time stamps are, sample by sample, those of the grid, and
  every sample carries the one observer location.
\<close>

theorem noon_to_noon_series_aligned:
  assumes "cells_18_to_22 ev notebook_inputs m33 bear_mountain out
             = (out', Inr (sunaltazs, moonaltazs, m33altazs))"
  shows "length sunaltazs = 1000 \<and> length moonaltazs = 1000 \<and> length m33altazs = 1000
       \<and> map coord_obstime sunaltazs = times_July12_to_13 notebook_inputs
       \<and> map coord_obstime moonaltazs = times_July12_to_13 notebook_inputs
       \<and> map coord_obstime m33altazs = times_July12_to_13 notebook_inputs
       \<and> (\<forall>c \<in> set sunaltazs \<union> set moonaltazs \<union> set m33altazs.
             coord_location c = bear_mountain)"
proof -
  let ?frame = "frame_July12_to_13 notebook_inputs bear_mountain"
  have n: "length (obstime ?frame) = 1000"
    by (simp add: frame_July12_to_13_def length_times_July12_to_13 notebook_inputs_def)
  then have n1: "length (obstime ?frame) \<noteq> 1" by simp
  have o: "obstime ?frame = times_July12_to_13 notebook_inputs"
    and l: "location ?frame = bear_mountain"
    by (simp_all add: frame_July12_to_13_def)
  from assms obtain sun moon where
    s: "transform_to ev sun ?frame = Inr sunaltazs" and
    m: "transform_to ev moon ?frame = Inr moonaltazs" and
    t: "transform_to ev [m33] ?frame = Inr m33altazs"
    by (auto simp: cells_18_to_22_def seq_def call_def ret_def ephemeris_request_def
        split: sum.splits)
  note a = transform_to_Inr [OF s n1] transform_to_Inr [OF m n1] transform_to_Inr [OF t n1]
  have "length (map coord_obstime sunaltazs) = 1000"
    and "length (map coord_obstime moonaltazs) = 1000"
    and "length (map coord_obstime m33altazs) = 1000"
    using a n by simp_all
  then have "length sunaltazs = 1000" and "length moonaltazs = 1000" and "length m33altazs = 1000"
    by simp_all
  with a o l show ?thesis by auto
qed

theorem noon_to_noon_series_aligned_witness:
  "\<exists>out' s m t.
     cells_18_to_22 clear_sky notebook_inputs \<lparr>ra = 23, dec = 31\<rparr>
       \<lparr>lat = 41.3, lon = - 74, height = 390\<rparr> [] = (out', Inr (s, m, t))
   \<and> length s = 1000 \<and> length m = 1000 \<and> length t = 1000
   \<and> map coord_obstime s = times_July12_to_13 notebook_inputs
   \<and> map coord_obstime m = times_July12_to_13 notebook_inputs
   \<and> map coord_obstime t = times_July12_to_13 notebook_inputs"
proof -
  from clear_sky_cells_18_to_22 obtain s m t where
    c: "cells_18_to_22 clear_sky notebook_inputs \<lparr>ra = 23, dec = 31\<rparr>
          \<lparr>lat = 41.3, lon = - 74, height = 390\<rparr> []
        = ([] @ [EphemerisDownload ''moon''], Inr (s, m, t))"
    by blast
  from noon_to_noon_series_aligned [OF c] c show ?thesis by blast
qed

section \<open>Properties of a run\<close>

lemma cell_24_out:
  "\<exists>d s m t z c. cell_24 inp series out = (out @ [AltitudePlot d s m t z c], Inr ())"
  by (cases series) (auto simp: cell_24_def emit_def)

lemma run_cases:
  "run ev inp =
     (case cells_6_to_10 ev inp [] of
        (o1, Inl e) \<Rightarrow> (o1, Some e)
      | (o1, Inr (m33, bear_mountain)) \<Rightarrow>
          (case cells_12_to_16 ev inp m33 bear_mountain o1 of
             (o2, Inl e) \<Rightarrow> (o2, Some e)
           | (o2, Inr u) \<Rightarrow>
               (case cells_18_to_22 ev inp m33 bear_mountain o2 of
                  (o3, Inl e) \<Rightarrow> (o3, Some e)
                | (o3, Inr series) \<Rightarrow> (fst (cell_24 inp series o3), None))))"
  using cell_24_out [of inp]
  apply (simp add: run_def notebook_def seq_def split: prod.splits sum.splits)
  apply (metis fst_conv snd_conv old.sum.distinct old.sum.inject prod.inject)
  done


lemma EarthLocation_notebook:
  "EarthLocation (site_lat notebook_inputs) (site_lon notebook_inputs) (site_height notebook_inputs)
     = Inr \<lparr>lat = 41.3, lon = - 74, height = 390\<rparr>"
  by (simp add: EarthLocation_def notebook_inputs_def)

lemma midnight_notebook:
  "midnight notebook_inputs
     = Time \<lparr>year = 2012, month = 7, day = 13, hour = 0, minute = 0, second = 0\<rparr> + 4"
  by (simp add: midnight_def notebook_inputs_def)

lemma time_notebook:
  "time notebook_inputs
     = Time \<lparr>year = 2012, month = 7, day = 13, hour = 0, minute = 0, second = 0\<rparr> + 3"
  by (simp add: time_def notebook_inputs_def Time_def julian_day_number_def Let_def)

lemma times_July13night_notebook:
  "times_July13night notebook_inputs = time_grid (midnight notebook_inputs) (- 2) 10 100"
  by (simp add: times_July13night_def notebook_inputs_def)

lemma times_July12_to_13_notebook:
  "times_July12_to_13 notebook_inputs = time_grid (midnight notebook_inputs) (- 12) 12 1000"
  by (simp add: times_July12_to_13_def notebook_inputs_def)

lemma night_grid_lower_bound:
  assumes "t \<in> set (time_grid base (- 2) 10 100)"
  shows "base - 2 \<le> t"
proof -
  from assms obtain i where i: "i < 100" and t: "t = time_grid base (- 2) 10 100 ! i"
    by (auto simp: in_set_conv_nth length_time_grid)
  from i have "time_grid base (- 2) 10 100 ! i = base + (- 2 + real i * ((10 - - 2) / real (100 - 1)))"
    by (intro nth_time_grid) simp_all
  with t show ?thesis by simp
qed

lemma no_data_fields:
  "from_name no_data_before_July13 k n = Inr \<lparr>ra = 23, dec = 31\<rparr>"
  "get_sun no_data_before_July13 ts = Inr (map (\<lambda>t. \<lparr>ra = 112, dec = 22\<rparr>) ts)"
  "horizon no_data_before_July13 loc t p =
     (if t < Time \<lparr>year = 2012, month = 7, day = 13, hour = 0, minute = 0, second = 0\<rparr>
      then Inl ComputationError else Inr (dec p, ra p))"
  by (simp_all add: no_data_before_July13_def clear_sky_def)

lemma no_data_cells_6_to_10:
  "cells_6_to_10 no_data_before_July13 notebook_inputs []
     = ([NameLookup ''M33'', Printed [31]],
        Inr (\<lparr>ra = 23, dec = 31\<rparr>, \<lparr>lat = 41.3, lon = - 74, height = 390\<rparr>))"
proof -
  have n: "target_name notebook_inputs = ''M33''" by (simp add: notebook_inputs_def)
  have t: "transform_to no_data_before_July13 [\<lparr>ra = 23, dec = 31\<rparr>]
             \<lparr>obstime = [time notebook_inputs], location = \<lparr>lat = 41.3, lon = - 74, height = 390\<rparr>\<rparr>
           = Inr [\<lparr>coord_obstime = time notebook_inputs,
                   coord_location = \<lparr>lat = 41.3, lon = - 74, height = 390\<rparr>,
                   alt = 31, az = 23\<rparr>]"
    by (simp add: transform_to_def broadcast_single_single transform_one_def
        no_data_fields time_notebook)
  from t show ?thesis
    by (simp add: cells_6_to_10_def seq_def emit_def call_def ret_def name_request_def n
        no_data_fields EarthLocation_notebook)
qed

lemma no_data_cells_12_to_16:
  "\<exists>d a. cells_12_to_16 no_data_before_July13 notebook_inputs p loc out
           = (out @ [AirmassPlot d a], Inr ())"
proof -
  let ?ts = "times_July13night notebook_inputs"
  have b: "broadcast [p] ?ts = Inr (map (\<lambda>t. (p, t)) ?ts)" by (rule broadcast_single)
  have "horizon no_data_before_July13 loc (snd pt) (fst pt) = Inr (dec (fst pt), ra (fst pt))"
    if "pt \<in> set (map (\<lambda>t. (p, t)) ?ts)" for pt
  proof -
    from that have "snd pt \<in> set (time_grid (midnight notebook_inputs) (- 2) 10 100)"
      by (auto simp: times_July13night_notebook)
    then have "midnight notebook_inputs - 2 \<le> snd pt" by (rule night_grid_lower_bound)
    then show ?thesis by (simp add: no_data_fields midnight_notebook)
  qed
  from transform_to_all_Inr [OF b this]
  obtain r where "transform_to no_data_before_July13 [p] \<lparr>obstime = ?ts, location = loc\<rparr> = Inr r"
    by blast
  then show ?thesis
    by (simp add: cells_12_to_16_def frame_July13night_def seq_def call_def emit_def)
qed

lemma no_data_cells_18_to_22:
  "cells_18_to_22 no_data_before_July13 notebook_inputs p loc out = (out, Inl ComputationError)"
proof -
  let ?ts = "times_July12_to_13 notebook_inputs"
  let ?sun = "map (\<lambda>t. \<lparr>ra = 112, dec = 22\<rparr>) ?ts"
  have len: "length ?ts = 1000" by (simp add: times_July12_to_13_notebook length_time_grid)
  then have ne: "zip ?sun ?ts \<noteq> []" by (cases ?ts) simp_all
  have "?ts ! 0 = midnight notebook_inputs + (- 12 + real 0 * ((12 - - 12) / real (1000 - 1)))"
    unfolding times_July12_to_13_notebook by (intro nth_time_grid) simp_all
  then have t0: "?ts ! 0 = midnight notebook_inputs - 12" by simp
  have "snd (hd (zip ?sun ?ts)) = ?ts ! 0"
    using len by (cases ?ts) simp_all
  with t0 have "horizon no_data_before_July13 loc (snd (hd (zip ?sun ?ts))) (fst (hd (zip ?sun ?ts)))
      = Inl ComputationError"
    by (simp add: no_data_fields midnight_notebook)
  from transform_to_first_Inl [OF broadcast_same ne this]
  have "transform_to no_data_before_July13 ?sun (frame_July12_to_13 notebook_inputs loc)
      = Inl ComputationError"
    by (simp add: frame_July12_to_13_def)
  then show ?thesis
    by (simp add: cells_18_to_22_def seq_def call_def no_data_fields)
qed

text \<open>
  Claim C8, as stated: when the horizon transform fails, no plot output is produced. With
  the notebook's inputs and a horizon transform that has no data before 2012-07-13 00:00,
  the transforms of cells 10 and 12 succeed and the transform of the Sun in cell 18 fails:
  the run ends with that error after the airmass figure of cell 16 has been shown.
\<close>

theorem airmass_plot_shown_before_late_failure:
  "map is_plot (fst (run no_data_before_July13 notebook_inputs)) = [False, False, True]
 \<and> snd (run no_data_before_July13 notebook_inputs) = Some ComputationError"
proof -
  obtain d a where
    "cells_12_to_16 no_data_before_July13 notebook_inputs
        \<lparr>ra = 23, dec = 31\<rparr> \<lparr>lat = 41.3, lon = - 74, height = 390\<rparr>
        [NameLookup ''M33'', Printed [31]]
      = ([NameLookup ''M33'', Printed [31]] @ [AirmassPlot d a], Inr ())"
    using no_data_cells_12_to_16 by blast
  then show ?thesis
    by (simp add: run_cases no_data_cells_6_to_10 no_data_cells_18_to_22)
qed

lemma transform_to_dec_ra:
  assumes h: "\<And>l t p. horizon ev l t p = Inr (dec p, ra p)"
    and b: "broadcast c ts = Inr pairs"
  shows "transform_to ev c \<lparr>obstime = ts, location = loc\<rparr>
           = Inr (map (\<lambda>pt. \<lparr>coord_obstime = snd pt, coord_location = loc,
                               alt = dec (fst pt), az = ra (fst pt)\<rparr>) pairs)"
  using transform_to_all_Inr [OF b, of ev loc "\<lambda>pt. (dec (fst pt), ra (fst pt))"] h
  by simp

lemma first_download_fails_fields:
  "from_name first_download_fails k n = Inr \<lparr>ra = 23, dec = 31\<rparr>"
  "get_sun first_download_fails ts = Inr (map (\<lambda>t. \<lparr>ra = 112, dec = 22\<rparr>) ts)"
  "get_body first_download_fails 0 b ts = Inl NetworkError"
  "get_body first_download_fails (Suc k) b ts = Inr (map (\<lambda>t. \<lparr>ra = 60, dec = 20\<rparr>) ts)"
  "horizon first_download_fails loc t p = Inr (dec p, ra p)"
  by (simp_all add: first_download_fails_def clear_sky_def)

text \<open>
  Claim C8, amended: the first error raised by a step ends the run at that step and
  reaches the caller unchanged, with no recovery and no retry. Step by step, in the order
  of the cells: if the name lookup, the observer location, a horizon transform, the
  Sun's positions or the Moon's ephemeris download fails while every earlier step has
  succeeded, the run returns exactly that error, and its log ends with what was there
  when the step was made; the answer a repeated lookup or download would get is never
  asked for. When the failure lies in cells 6 to 12 the log holds no figure. When it lies
  in cells 18 to 22 the log holds the airmass figure and no altitude figure. When every
  step succeeds the run returns no error and has shown both figures.
\<close>

theorem errors_end_the_run:
  "(from_name ev 0 (target_name inp) = Inl e \<longrightarrow>
      run ev inp = ([NameLookup (target_name inp)], Some e))
 \<and> (\<forall>m33. from_name ev 0 (target_name inp) = Inr m33 \<longrightarrow>
      (EarthLocation (site_lat inp) (site_lon inp) (site_height inp) = Inl e \<longrightarrow>
         run ev inp = ([NameLookup (target_name inp)], Some e))
    \<and> (\<forall>bear_mountain.
         EarthLocation (site_lat inp) (site_lon inp) (site_height inp) = Inr bear_mountain \<longrightarrow>
         (transform_to ev [m33] \<lparr>obstime = [time inp], location = bear_mountain\<rparr> = Inl e \<longrightarrow>
            run ev inp = ([NameLookup (target_name inp)], Some e))
       \<and> (\<forall>m33altaz.
            transform_to ev [m33] \<lparr>obstime = [time inp], location = bear_mountain\<rparr>
              = Inr m33altaz \<longrightarrow>
            (transform_to ev [m33] (frame_July13night inp bear_mountain) = Inl e \<longrightarrow>
               run ev inp
                 = ([NameLookup (target_name inp), Printed (map alt m33altaz)], Some e))
          \<and> (\<forall>night.
               transform_to ev [m33] (frame_July13night inp bear_mountain) = Inr night \<longrightarrow>
               (get_sun ev (times_July12_to_13 inp) = Inl e \<longrightarrow>
                  run ev inp
                    = ([NameLookup (target_name inp), Printed (map alt m33altaz),
                        AirmassPlot (delta_midnight_night inp) (map (secz \<circ> alt) night)],
                       Some e))
             \<and> (\<forall>sun.
                  get_sun ev (times_July12_to_13 inp) = Inr sun \<longrightarrow>
                  (transform_to ev sun (frame_July12_to_13 inp bear_mountain) = Inl e \<longrightarrow>
                     run ev inp
                       = ([NameLookup (target_name inp), Printed (map alt m33altaz),
                           AirmassPlot (delta_midnight_night inp) (map (secz \<circ> alt) night)],
                          Some e))
                \<and> (\<forall>sunaltazs.
                     transform_to ev sun (frame_July12_to_13 inp bear_mountain)
                       = Inr sunaltazs \<longrightarrow>
                     (get_body ev 0 ''moon'' (times_July12_to_13 inp) = Inl e \<longrightarrow>
                        run ev inp
                          = ([NameLookup (target_name inp), Printed (map alt m33altaz),
                              AirmassPlot (delta_midnight_night inp) (map (secz \<circ> alt) night),
                              EphemerisDownload ''moon''],
                             Some e))
                   \<and> (\<forall>moon.
                        get_body ev 0 ''moon'' (times_July12_to_13 inp) = Inr moon \<longrightarrow>
                        (transform_to ev moon (frame_July12_to_13 inp bear_mountain) = Inl e \<longrightarrow>
                           run ev inp
                             = ([NameLookup (target_name inp), Printed (map alt m33altaz),
                                 AirmassPlot (delta_midnight_night inp)
                                   (map (secz \<circ> alt) night),
                                 EphemerisDownload ''moon''],
                                Some e))
                      \<and> (\<forall>moonaltazs.
                           transform_to ev moon (frame_July12_to_13 inp bear_mountain)
                             = Inr moonaltazs \<longrightarrow>
                           (transform_to ev [m33] (frame_July12_to_13 inp bear_mountain)
                              = Inl e \<longrightarrow>
                              run ev inp
                                = ([NameLookup (target_name inp), Printed (map alt m33altaz),
                                    AirmassPlot (delta_midnight_night inp)
                                      (map (secz \<circ> alt) night),
                                    EphemerisDownload ''moon''],
                                   Some e))
                         \<and> (\<forall>m33altazs.
                              transform_to ev [m33] (frame_July12_to_13 inp bear_mountain)
                                = Inr m33altazs \<longrightarrow>
                              run ev inp
                                = ([NameLookup (target_name inp), Printed (map alt m33altaz),
                                    AirmassPlot (delta_midnight_night inp)
                                      (map (secz \<circ> alt) night),
                                    EphemerisDownload ''moon'',
                                    AltitudePlot (delta_midnight_full inp)
                                      (map alt sunaltazs) (map alt moonaltazs)
                                      (map alt m33altazs) (map az m33altazs)
                                      (shading (map alt sunaltazs))],
                                   None))))))))))"
  by (simp add: run_def notebook_def cells_6_to_10_def cells_12_to_16_def cells_18_to_22_def
      cell_24_def seq_def name_request_def ephemeris_request_def call_def emit_def ret_def)

theorem errors_end_the_run_witness:
  "from_name first_lookup_fails 0 (target_name notebook_inputs) = Inl ResolutionError
 \<and> from_name first_lookup_fails 1 (target_name notebook_inputs) = Inr \<lparr>ra = 23, dec = 31\<rparr>
 \<and> run first_lookup_fails notebook_inputs = ([NameLookup ''M33''], Some ResolutionError)
 \<and> get_body first_download_fails 0 ''moon'' (times_July12_to_13 notebook_inputs)
      = Inl NetworkError
 \<and> get_body first_download_fails 1 ''moon'' (times_July12_to_13 notebook_inputs)
      = Inr (map (\<lambda>t. \<lparr>ra = 60, dec = 20\<rparr>) (times_July12_to_13 notebook_inputs))
 \<and> snd (run first_download_fails notebook_inputs) = Some NetworkError
 \<and> map is_plot (fst (run first_download_fails notebook_inputs)) = [False, False, True, False]"
proof -
  have n: "target_name notebook_inputs = ''M33''" by (simp add: notebook_inputs_def)
  have f0: "from_name first_lookup_fails 0 (target_name notebook_inputs) = Inl ResolutionError"
    and f1: "from_name first_lookup_fails 1 (target_name notebook_inputs)
               = Inr \<lparr>ra = 23, dec = 31\<rparr>"
    by (simp_all add: first_lookup_fails_def clear_sky_def)
  from errors_end_the_run [of first_lookup_fails notebook_inputs ResolutionError] f0
  have r1: "run first_lookup_fails notebook_inputs = ([NameLookup ''M33''], Some ResolutionError)"
    by (simp add: n)
  let ?ev = first_download_fails
  let ?m33 = "\<lparr>ra = 23, dec = 31\<rparr>"
  let ?loc = "\<lparr>lat = 41.3, lon = - 74, height = 390\<rparr>"
  let ?ts = "times_July12_to_13 notebook_inputs"
  let ?sun = "map (\<lambda>t. \<lparr>ra = 112, dec = 22\<rparr>) ?ts"
  have h: "\<And>l t p. horizon ?ev l t p = Inr (dec p, ra p)"
    by (simp add: first_download_fails_fields)
  have g0: "get_body ?ev 0 ''moon'' ?ts = Inl NetworkError"
    and g1: "get_body ?ev 1 ''moon'' ?ts = Inr (map (\<lambda>t. \<lparr>ra = 60, dec = 20\<rparr>) ?ts)"
    by (simp_all add: first_download_fails_def clear_sky_def)
  note t1 = transform_to_dec_ra [OF h broadcast_single_single, of ?m33 "time notebook_inputs" ?loc]
  note t2 = transform_to_dec_ra [OF h broadcast_single, of ?m33 "times_July13night notebook_inputs" ?loc]
  note t3 = transform_to_dec_ra [OF h broadcast_same, of "\<lambda>t. \<lparr>ra = 112, dec = 22\<rparr>" ?ts ?loc]
  from errors_end_the_run [of ?ev notebook_inputs NetworkError] t1 t2 t3 g0
  have "\<exists>p a. run ?ev notebook_inputs
      = ([NameLookup ''M33'', Printed p, AirmassPlot (delta_midnight_night notebook_inputs) a,
          EphemerisDownload ''moon''], Some NetworkError)"
    by (simp add: n first_download_fails_fields EarthLocation_notebook
        frame_July13night_def frame_July12_to_13_def)
  then obtain p a where "run ?ev notebook_inputs
      = ([NameLookup ''M33'', Printed p, AirmassPlot (delta_midnight_night notebook_inputs) a,
          EphemerisDownload ''moon''], Some NetworkError)"
    by blast
  then have "snd (run ?ev notebook_inputs) = Some NetworkError"
    and "map is_plot (fst (run ?ev notebook_inputs)) = [False, False, True, False]"
    by simp_all
  with f0 f1 r1 g0 g1 show ?thesis by blast
qed

lemma cells_6_to_10_invalid_latitude:
  assumes "site_lat inp < - 90 \<or> 90 < site_lat inp"
  shows "cells_6_to_10 ev inp [] =
           ([NameLookup (target_name inp)],
            case from_name ev 0 (target_name inp) of
              Inl e \<Rightarrow> Inl e
            | Inr m33 \<Rightarrow> Inl InvalidLocationError)"
  using assms
  by (auto simp: cells_6_to_10_def seq_def call_def name_request_def EarthLocation_def
      split: sum.splits)

text \<open>
  Claim C7: for a latitude outside [-90, 90] degrees the Observer Frame Builder fails with
  \<open>InvalidLocationError\<close> and builds no location; a run with such a latitude ends in an
  error without printing or plotting anything, and that error is \<open>InvalidLocationError\<close>
  once the name has been resolved. For a latitude in [-90, 90] and a longitude in
  [-180, 180] or [0, 360) the builder returns the location and cannot fail.
\<close>

theorem invalid_latitude_rejected:
  "(la < - 90 \<or> 90 < la \<longrightarrow> EarthLocation la lo h = Inl InvalidLocationError)
 \<and> (site_lat inp < - 90 \<or> 90 < site_lat inp \<longrightarrow>
        (\<exists>e. snd (run ev inp) = Some e)
      \<and> filter is_output (fst (run ev inp)) = []
      \<and> (\<forall>m33. from_name ev 0 (target_name inp) = Inr m33 \<longrightarrow>
            run ev inp = ([NameLookup (target_name inp)], Some InvalidLocationError)))
 \<and> (- 90 \<le> la \<and> la \<le> 90 \<and> ((- 180 \<le> lo \<and> lo \<le> 180) \<or> (0 \<le> lo \<and> lo < 360)) \<longrightarrow>
        EarthLocation la lo h = Inr \<lparr>lat = la, lon = lo, height = h\<rparr>)"
proof (intro conjI impI allI)
  assume "la < - 90 \<or> 90 < la"
  then show "EarthLocation la lo h = Inl InvalidLocationError"
    by (auto simp: EarthLocation_def)
next
  assume a: "site_lat inp < - 90 \<or> 90 < site_lat inp"
  note c = cells_6_to_10_invalid_latitude [OF a, of ev]
  show "\<exists>e. snd (run ev inp) = Some e"
    by (cases "from_name ev 0 (target_name inp)") (simp_all add: run_cases c)
  show "filter is_output (fst (run ev inp)) = []"
    by (cases "from_name ev 0 (target_name inp)") (simp_all add: run_cases c)
  fix m33 assume "from_name ev 0 (target_name inp) = Inr m33"
  then show "run ev inp = ([NameLookup (target_name inp)], Some InvalidLocationError)"
    by (simp add: run_cases c)
next
  assume "- 90 \<le> la \<and> la \<le> 90 \<and> ((- 180 \<le> lo \<and> lo \<le> 180) \<or> (0 \<le> lo \<and> lo < 360))"
  then show "EarthLocation la lo h = Inr \<lparr>lat = la, lon = lo, height = h\<rparr>"
    by (simp add: EarthLocation_def)
qed

theorem invalid_latitude_rejected_witness:
  "(90::real) < 95
 \<and> EarthLocation 95 (- 74) 390 = Inl InvalidLocationError
 \<and> run clear_sky (notebook_inputs\<lparr>site_lat := 95\<rparr>)
      = ([NameLookup ''M33''], Some InvalidLocationError)
 \<and> EarthLocation 41.3 (- 74) 390 = Inr \<lparr>lat = 41.3, lon = - 74, height = 390\<rparr>"
proof -
  have n: "target_name (notebook_inputs\<lparr>site_lat := 95\<rparr>) = ''M33''"
    and s: "site_lat (notebook_inputs\<lparr>site_lat := 95\<rparr>) = 95"
    by (simp_all add: notebook_inputs_def)
  have f: "from_name clear_sky 0 (target_name (notebook_inputs\<lparr>site_lat := 95\<rparr>))
             = Inr \<lparr>ra = 23, dec = 31\<rparr>"
    by (simp add: clear_sky_fields)
  from invalid_latitude_rejected [of 95 "- 74" 390 "notebook_inputs\<lparr>site_lat := 95\<rparr>" clear_sky]
       invalid_latitude_rejected [of "41.3" "- 74" 390 "notebook_inputs\<lparr>site_lat := 95\<rparr>" clear_sky]
  show ?thesis using f by (simp add: n s)
qed

section \<open>The instants handed to the horizon transform\<close>





end
